theory Spec2Isabelle
  imports Complex_Main "HOL-Library.Multiset" "HOL-Library.Word"
begin

unbundle bit_operations_syntax

section \<open>Tensors and Python values\<close>

text \<open>
  A \<^verbatim>\<open>torch.Tensor\<close> is modelled by its shape and its elements in row-major order.
  Token ids, masks and beam indices are integer tensors; scores and cached attention
  states are floating-point tensors, whose elements are modelled as reals.
\<close>

record 'a Tensor =
  shape :: "nat list"
  data :: "'a list"

text \<open>\<^verbatim>\<open>torch.equal(s, t)\<close>: true when the two tensors have the same size and elements.\<close>

definition torch_equal :: "'a Tensor \<Rightarrow> 'a Tensor \<Rightarrow> bool" where
  "torch_equal s t = (shape s = shape t \<and> data s = data t)"

type_synonym past_key_values_t = "(real Tensor \<times> real Tensor) list"

datatype py_error = TypeError | IndexError | AttributeError

text \<open>The Python values that the built-in \<^verbatim>\<open>len\<close> is applied to in this module.\<close>

datatype py_value = PyInt int | PyStr string | PyTuple "py_value list"

text \<open>
  The built-in \<^verbatim>\<open>len\<close>: strings and tuples have a length, an \<^verbatim>\<open>int\<close> has no
  \<^verbatim>\<open>__len__\<close> and the call raises \<^verbatim>\<open>TypeError\<close>.
\<close>

fun py_len :: "py_value \<Rightarrow> py_error + nat" where
  "py_len (PyInt n) = Inl TypeError"
| "py_len (PyStr s) = Inr (length s)"
| "py_len (PyTuple vs) = Inr (length vs)"

text \<open>
  \<^verbatim>\<open>t.shape[-1]\<close>: the last entry of the size tuple, an \<^verbatim>\<open>int\<close>; indexing the empty
  size of a zero-dimensional tensor raises \<^verbatim>\<open>IndexError\<close>.
\<close>

definition shape_last :: "nat list \<Rightarrow> py_error + py_value" where
  "shape_last s = (if s = [] then Inl IndexError else Inr (PyInt (int (last s))))"

section \<open>The data classes of \<^verbatim>\<open>generators/data_structures.py\<close>\<close>

text \<open>
  Python resolves the forward references between the classes at run time; here every
  record is declared before its first use. Fields that several classes share are
  written with the record's name in front where the reading is not clear.
\<close>

record OriginalContinuationData =
  sequences :: "int Tensor"
  scores :: "real Tensor list"
  transition_scores :: "real Tensor list"
  beam_indices :: "int Tensor"
  past_key_values :: past_key_values_t
  attention_mask :: "int Tensor"
  last_beam_scores :: "real Tensor"

text \<open>The legacy class \<^verbatim>\<open>ContinuationData\<close>.\<close>

record ContinuationData =
  sequences :: "int Tensor"
  transition_scores :: "real Tensor"
  last_beam_scores :: "real Tensor"
  past_key_values :: past_key_values_t
  attention_mask :: "int Tensor"
  original_data :: "OriginalContinuationData option"

text \<open>
  \<^verbatim>\<open>SemanticData\<close>. The fields \<^verbatim>\<open>start\<close>, \<^verbatim>\<open>end\<close> and \<^verbatim>\<open>_type\<close> are written
  \<open>sd_start\<close>, \<open>sd_end\<close> and \<open>sd_type\<close>; the opaque annotation \<^verbatim>\<open>other\<close> is an
  optional string.
\<close>

record SemanticData =
  unique_key :: string
  sd_start :: int
  sd_end :: int
  sd_type :: string
  amount_of_chunks :: "int option"
  other :: "string option"
  has_semantic_data :: bool

text \<open>
  The generated constructor: \<^verbatim>\<open>has_semantic_data: bool = True\<close> is the only field with
  a default, so the argument may be left out (\<open>None\<close>).
\<close>

definition SemanticData_init ::
  "string \<Rightarrow> int \<Rightarrow> int \<Rightarrow> string \<Rightarrow> int option \<Rightarrow> string option \<Rightarrow> bool option \<Rightarrow> SemanticData" where
  "SemanticData_init uk st en ty ch ot hsd =
     \<lparr>unique_key = uk, sd_start = st, sd_end = en, sd_type = ty, amount_of_chunks = ch,
      other = ot, has_semantic_data = (case hsd of None \<Rightarrow> True | Some b \<Rightarrow> b)\<rparr>"

text \<open>
  \<^verbatim>\<open>SyntacticHypothesisData\<close>, the abstract base class. The class
  \<^verbatim>\<open>SyntacticHypothesisUnshortenedContinuationData\<close> adds nothing to it, and
  \<^verbatim>\<open>SyntacticHypothesisContinuationData\<close> extends it by the optional unshortened data.
\<close>

record SyntacticHypothesisData =
  sequences :: "int Tensor"
  transition_scores :: "real Tensor"
  last_beam_scores :: "real Tensor"
  past_key_values :: past_key_values_t
  attention_mask :: "int Tensor"

type_synonym SyntacticHypothesisUnshortenedContinuationData = SyntacticHypothesisData

record SyntacticHypothesisContinuationData = SyntacticHypothesisData +
  unshortened_data :: "SyntacticHypothesisUnshortenedContinuationData option"

record SyntacticHypothesisMetaData =
  tokens_shortened :: int

text \<open>
  \<^verbatim>\<open>SyntacticHypothesis\<close>. The two scores are scalar tensors, modelled by the number
  they hold.
\<close>

record SyntacticHypothesis =
  aggregation_key :: string
  semantic_source_hypothesis_idx :: int
  syntactic_source_hypothesis_idx :: int
  hypothesis_idx :: int
  path_score :: real
  normalized_path_score :: real
  semantic_data :: SemanticData
  syntactic_hypothesis :: SyntacticHypothesisContinuationData
  metadata :: SyntacticHypothesisMetaData
  is_aggregation_key_complete :: bool
  is_normalized_path_score_calculated :: bool

text \<open>
  The generated constructor: the two flags are declared with the default \<^verbatim>\<open>False\<close>
  and may be left out (\<open>None\<close>).
\<close>

definition SyntacticHypothesis_init ::
  "string \<Rightarrow> int \<Rightarrow> int \<Rightarrow> int \<Rightarrow> real \<Rightarrow> real \<Rightarrow> SemanticData \<Rightarrow>
   SyntacticHypothesisContinuationData \<Rightarrow> SyntacticHypothesisMetaData \<Rightarrow>
   bool option \<Rightarrow> bool option \<Rightarrow> SyntacticHypothesis" where
  "SyntacticHypothesis_init k sem syn idx ps nps sd sh md key_complete score_normalized =
     \<lparr>aggregation_key = k, semantic_source_hypothesis_idx = sem,
      syntactic_source_hypothesis_idx = syn, hypothesis_idx = idx, path_score = ps,
      normalized_path_score = nps, semantic_data = sd, syntactic_hypothesis = sh,
      metadata = md,
      is_aggregation_key_complete = (case key_complete of None \<Rightarrow> False | Some b \<Rightarrow> b),
      is_normalized_path_score_calculated =
        (case score_normalized of None \<Rightarrow> False | Some b \<Rightarrow> b)\<rparr>"

text \<open>\<^verbatim>\<open>SemanticHypothesis\<close>; the tuple of members is a list.\<close>

record SemanticHypothesis =
  aggregation_key :: string
  score :: real
  syntactic_hypotheses :: "SyntacticHypothesis list"
  source_data :: "OriginalContinuationData option"

section \<open>The methods\<close>

subsection \<open>Length\<close>

definition SemanticHypothesis_len :: "SemanticHypothesis \<Rightarrow> nat" where
  "SemanticHypothesis_len self = length (syntactic_hypotheses self)"

text \<open>\<^verbatim>\<open>SyntacticHypothesisData.__len__\<close> returns \<^verbatim>\<open>self.sequences.shape[-1]\<close>.\<close>

definition SyntacticHypothesisData_len ::
  "'z SyntacticHypothesisData_scheme \<Rightarrow> py_error + py_value" where
  "SyntacticHypothesisData_len self = shape_last (shape (SyntacticHypothesisData.sequences self))"

text \<open>
  \<^verbatim>\<open>ContinuationData.__len__\<close> returns \<^verbatim>\<open>len(self.sequences.shape[-1])\<close>: the built-in
  \<^verbatim>\<open>len\<close> applied to what the indexing gives.
\<close>

definition ContinuationData_len :: "ContinuationData \<Rightarrow> py_error + nat" where
  "ContinuationData_len self =
     (case shape_last (shape (ContinuationData.sequences self)) of
        Inl e \<Rightarrow> Inl e
      | Inr v \<Rightarrow> py_len v)"

subsection \<open>Equality\<close>

definition SyntacticHypothesis_eq :: "SyntacticHypothesis \<Rightarrow> SyntacticHypothesis \<Rightarrow> bool" where
  "SyntacticHypothesis_eq self other' =
     torch_equal (SyntacticHypothesisData.sequences (syntactic_hypothesis self))
                 (SyntacticHypothesisData.sequences (syntactic_hypothesis other'))"

subsection \<open>Ordering\<close>

definition SemanticHypothesis_lt :: "SemanticHypothesis \<Rightarrow> SemanticHypothesis \<Rightarrow> bool" where
  "SemanticHypothesis_lt self other' = (score self < score other')"

text \<open>
  The objects that \<^verbatim>\<open><\<close> is applied to. Python evaluates \<^verbatim>\<open>a < b\<close> by the
  \<^verbatim>\<open>__lt__\<close> of the class of \<^verbatim>\<open>a\<close>; where the class defines none, by the reflected
  \<^verbatim>\<open>__gt__\<close> of the class of \<^verbatim>\<open>b\<close>; where that is missing too, it raises
  \<^verbatim>\<open>TypeError\<close>. Both classes are declared with a plain \<^verbatim>\<open>@dataclass\<close>
  (\<^verbatim>\<open>order=False\<close>), which generates no comparison method, so the only one is the
  \<^verbatim>\<open>__lt__\<close> written in \<^verbatim>\<open>SemanticHypothesis\<close>. Its body reads \<^verbatim>\<open>other.score\<close>, an
  attribute that a \<^verbatim>\<open>SyntacticHypothesis\<close> does not have.
\<close>

datatype py_object = SynHyp SyntacticHypothesis | SemHyp SemanticHypothesis

fun class_lt :: "py_object \<Rightarrow> (py_object \<Rightarrow> py_error + bool) option" where
  "class_lt (SemHyp self) =
     Some (\<lambda>other'. case other' of
                      SemHyp b \<Rightarrow> Inr (SemanticHypothesis_lt self b)
                    | SynHyp b \<Rightarrow> Inl AttributeError)"
| "class_lt (SynHyp self) = None"

fun class_gt :: "py_object \<Rightarrow> (py_object \<Rightarrow> py_error + bool) option" where
  "class_gt (SemHyp self) = None"
| "class_gt (SynHyp self) = None"

definition py_less :: "py_object \<Rightarrow> py_object \<Rightarrow> py_error + bool" where
  "py_less a b =
     (case class_lt a of
        Some lt \<Rightarrow> lt b
      | None \<Rightarrow> (case class_gt b of Some gt \<Rightarrow> gt a | None \<Rightarrow> Inl TypeError))"

subsection \<open>Hashing\<close>

text \<open>
  \<^verbatim>\<open>SyntacticHypothesis.__hash__\<close> returns
  \<^verbatim>\<open>hash(tuple(self.syntactic_hypothesis.sequences.flatten()))\<close>. Iterating the
  flattened tensor does not give Python integers: it gives one new zero-dimensional
  tensor object per element. Such an object holds the element and has an identity
  (\<^verbatim>\<open>id\<close>, its address), which the runtime chooses when the object is created; the
  identities of the objects of one call are therefore an input of the model.
\<close>

record ScalarTensor =
  ident :: int
  item :: int

definition flatten_iter :: "int list \<Rightarrow> int Tensor \<Rightarrow> ScalarTensor list" where
  "flatten_iter ids t = map (\<lambda>(i, v). \<lparr>ident = i, item = v\<rparr>) (zip ids (data t))"

text \<open>
  \<^verbatim>\<open>torch.Tensor.__hash__\<close> is \<^verbatim>\<open>id(self)\<close>: a tensor hashes by identity, not by
  the element it holds. The hash is a 64-bit machine word.
\<close>

definition Tensor_hash :: "ScalarTensor \<Rightarrow> 64 word" where
  "Tensor_hash t = word_of_int (ident t)"

text \<open>
  The hash of a tuple, from the hashes of its elements, as CPython (3.8 and later, on
  64 bits) computes it.
\<close>

definition XXPRIME_1 :: "64 word" where "XXPRIME_1 = 11400714785074694791"
definition XXPRIME_2 :: "64 word" where "XXPRIME_2 = 14029467366897019727"
definition XXPRIME_5 :: "64 word" where "XXPRIME_5 = 2870177450012600261"

definition XXROTATE :: "64 word \<Rightarrow> 64 word" where
  "XXROTATE x = (push_bit 31 x OR drop_bit 33 x)"

fun tuplehash_loop :: "64 word \<Rightarrow> 64 word list \<Rightarrow> 64 word" where
  "tuplehash_loop acc [] = acc"
| "tuplehash_loop acc (lane # lanes) =
     tuplehash_loop (XXROTATE (acc + lane * XXPRIME_2) * XXPRIME_1) lanes"

definition tuplehash :: "64 word list \<Rightarrow> 64 word" where
  "tuplehash lanes =
     (let acc = tuplehash_loop XXPRIME_5 lanes
                + (word_of_nat (length lanes) XOR (XXPRIME_5 XOR 3527539))
      in if acc = - 1 then 1546275796 else acc)"

definition SyntacticHypothesis_hash :: "int list \<Rightarrow> SyntacticHypothesis \<Rightarrow> 64 word" where
  "SyntacticHypothesis_hash ids self =
     tuplehash (map Tensor_hash
       (flatten_iter ids (SyntacticHypothesisData.sequences (syntactic_hypothesis self))))"

section \<open>The operations on hypotheses\<close>

text \<open>
  The source files hold the data classes only. The operations that work on them
  (grouping, shortening, restoring) are described in the specification and are
  modelled from it, over the records above.
\<close>

text \<open>
  Modelled from the spec: the error kinds of the core (section 7 of the specification),
  which are not in the source files.
\<close>

datatype core_error = ShapeMismatch | InvalidLength | IncompleteAggregationKey | EmptyInput

subsection \<open>Continuation State Store\<close>

text \<open>
  Modelled from the spec: the truncation used by \<^verbatim>\<open>shorten\<close>, which is not in the source
  files. The specification's \<^verbatim>\<open>sequences\<close>, \<^verbatim>\<open>transition_scores\<close> and
  \<^verbatim>\<open>attention_mask\<close> are ordered sequences, that is, one-dimensional tensors;
  truncating one to \<open>n\<close> keeps its first \<open>n\<close> elements.
\<close>

definition truncate_to :: "nat \<Rightarrow> 'a Tensor \<Rightarrow> 'a Tensor" where
  "truncate_to n t = \<lparr>shape = [n], data = take n (data t)\<rparr>"

text \<open>
  Modelled from the spec: \<^verbatim>\<open>shorten(continuation, new_length)\<close>, which is not in the
  source files. It "truncates \<^verbatim>\<open>sequences\<close>/\<^verbatim>\<open>transition_scores\<close>/\<^verbatim>\<open>attention_mask\<close>
  to \<^verbatim>\<open>new_length\<close>, moves the original full-length data into the \<^verbatim>\<open>unshortened\<close>
  field (creating it if absent, overwriting if a longer unshortened form already
  exists)" and "fails with \<^verbatim>\<open>InvalidLength\<close> if \<^verbatim>\<open>new_length\<close> exceeds current
  length". The unshortened form has the fields of the base class, so the data moved
  into it are the five base fields of the continuation.
\<close>

definition shorten ::
  "SyntacticHypothesisContinuationData \<Rightarrow> nat \<Rightarrow> core_error + SyntacticHypothesisContinuationData" where
  "shorten c new_length =
     (if length (data (SyntacticHypothesisData.sequences c)) < new_length then Inl InvalidLength
      else Inr \<lparr>sequences = truncate_to new_length (SyntacticHypothesisData.sequences c),
                transition_scores =
                  truncate_to new_length (SyntacticHypothesisData.transition_scores c),
                last_beam_scores = SyntacticHypothesisData.last_beam_scores c,
                past_key_values = SyntacticHypothesisData.past_key_values c,
                attention_mask =
                  truncate_to new_length (SyntacticHypothesisData.attention_mask c),
                unshortened_data =
                  Some \<lparr>sequences = SyntacticHypothesisData.sequences c,
                        transition_scores = SyntacticHypothesisData.transition_scores c,
                        last_beam_scores = SyntacticHypothesisData.last_beam_scores c,
                        past_key_values = SyntacticHypothesisData.past_key_values c,
                        attention_mask = SyntacticHypothesisData.attention_mask c\<rparr>\<rparr>)"

text \<open>
  Modelled from the spec: \<^verbatim>\<open>restore(continuation)\<close>, which is not in the source files.
  It "returns the \<^verbatim>\<open>unshortened\<close> form if present, else the input unchanged". The
  unshortened form is returned as a continuation, which has no unshortened form of
  its own ("restoring an already-unshortened hypothesis is a no-op").
\<close>

definition restore :: "SyntacticHypothesisContinuationData \<Rightarrow> SyntacticHypothesisContinuationData" where
  "restore c =
     (case unshortened_data c of
        None \<Rightarrow> c
      | Some u \<Rightarrow> \<lparr>sequences = SyntacticHypothesisData.sequences u,
                   transition_scores = SyntacticHypothesisData.transition_scores u,
                   last_beam_scores = SyntacticHypothesisData.last_beam_scores u,
                   past_key_values = SyntacticHypothesisData.past_key_values u,
                   attention_mask = SyntacticHypothesisData.attention_mask u,
                   unshortened_data = None\<rparr>)"

subsection \<open>Aggregation Engine\<close>

text \<open>
  Modelled from the spec: step 1 of \<^verbatim>\<open>group\<close>, which is not in the source files.
  "Partition hypotheses by \<^verbatim>\<open>aggregation_key\<close>": the partitions are kept in a list of
  keys with their members; a hypothesis joins the partition of its key at the end, and
  a key not seen before opens a new partition at the end of the list.
\<close>

fun add_to_partition ::
  "SyntacticHypothesis \<Rightarrow> (string \<times> SyntacticHypothesis list) list \<Rightarrow>
   (string \<times> SyntacticHypothesis list) list" where
  "add_to_partition h [] = [(SyntacticHypothesis.aggregation_key h, [h])]"
| "add_to_partition h ((k, ms) # ps) =
     (if k = SyntacticHypothesis.aggregation_key h then (k, ms @ [h]) # ps
      else (k, ms) # add_to_partition h ps)"

text \<open>
  Modelled from the spec: the partition of the whole input, hypothesis after hypothesis
  in input order (step 1 of \<^verbatim>\<open>group\<close>, not in the source files).
\<close>

definition partition_by_key ::
  "SyntacticHypothesis list \<Rightarrow> (string \<times> SyntacticHypothesis list) list" where
  "partition_by_key H = foldl (\<lambda>ps h. add_to_partition h ps) [] H"

text \<open>
  Modelled from the spec: step 2 of \<^verbatim>\<open>group\<close>, not in the source files. The score of
  a group comes from "a fixed aggregate policy" over its members, which the
  specification leaves open; the policy is a parameter. The raw output is "retained
  only when explicitly requested" and is omitted.
\<close>

definition make_semantic_hypothesis ::
  "(SyntacticHypothesis list \<Rightarrow> real) \<Rightarrow> string \<Rightarrow> SyntacticHypothesis list \<Rightarrow> SemanticHypothesis" where
  "make_semantic_hypothesis policy k ms =
     \<lparr>aggregation_key = k, score = policy ms, syntactic_hypotheses = ms, source_data = None\<rparr>"

text \<open>
  Modelled from the spec: the "simple maximum" of the member path scores, the
  alternate aggregate policy that the specification names (not in the source files).
  A partition is never empty.
\<close>

fun max_policy :: "SyntacticHypothesis list \<Rightarrow> real" where
  "max_policy [] = 0"
| "max_policy [m] = path_score m"
| "max_policy (m # ms) = max (path_score m) (max_policy ms)"

text \<open>
  Modelled from the spec: step 3 of \<^verbatim>\<open>group\<close>, not in the source files. "A partition
  whose hypotheses all have \<^verbatim>\<open>is_aggregation_key_complete == false\<close> yields a
  \<^verbatim>\<open>SemanticHypothesis\<close> per individual hypothesis rather than merging"; every other
  partition yields one group.
\<close>

definition groups_of_partition ::
  "(SyntacticHypothesis list \<Rightarrow> real) \<Rightarrow> string \<times> SyntacticHypothesis list \<Rightarrow> SemanticHypothesis list" where
  "groups_of_partition policy p =
     (case p of (k, ms) \<Rightarrow>
        if list_all (\<lambda>m. \<not> is_aggregation_key_complete m) ms
        then map (\<lambda>m. make_semantic_hypothesis policy k [m]) ms
        else [make_semantic_hypothesis policy k ms])"

text \<open>
  Modelled from the spec: \<^verbatim>\<open>group(hypotheses)\<close> of the Aggregation Engine, which is not
  in the source files (the name \<open>group\<close> belongs to the algebra of HOL). It "fails
  with \<^verbatim>\<open>EmptyInput\<close> if given zero hypotheses" (step 4) and otherwise returns the
  groups of the partitions, partition after partition.
\<close>

definition group_hypotheses ::
  "(SyntacticHypothesis list \<Rightarrow> real) \<Rightarrow> SyntacticHypothesis list \<Rightarrow> core_error + SemanticHypothesis list" where
  "group_hypotheses policy H =
     (if H = [] then Inl EmptyInput
      else Inr (concat (map (groups_of_partition policy) (partition_by_key H))))"

text \<open>
  The keys of a list in the order in which they are first seen: what the stability of
  the partition is measured against.
\<close>

definition first_seen :: "'a list \<Rightarrow> 'a list" where
  "first_seen ks = rev (remdups (rev ks))"

abbreviation key_of :: "SyntacticHypothesis \<Rightarrow> string" where
  "key_of \<equiv> SyntacticHypothesis.aggregation_key"

section \<open>Example values\<close>

text \<open>
  Small values on which the definitions are evaluated below: a continuation and an
  unshortened form over a list of token ids, a hypothesis with a key, a path score, a
  token list and a completeness flag, and a legacy continuation over a tensor.
\<close>

definition demo_continuation :: "int list \<Rightarrow> SyntacticHypothesisContinuationData" where
  "demo_continuation toks =
     \<lparr>sequences = \<lparr>shape = [length toks], data = toks\<rparr>,
      transition_scores = \<lparr>shape = [length toks], data = map (\<lambda>_. 0) toks\<rparr>,
      last_beam_scores = \<lparr>shape = [], data = [0]\<rparr>,
      past_key_values = [],
      attention_mask = \<lparr>shape = [length toks], data = map (\<lambda>_. 1) toks\<rparr>,
      unshortened_data = None\<rparr>"

definition demo_unshortened :: "int list \<Rightarrow> SyntacticHypothesisUnshortenedContinuationData" where
  "demo_unshortened toks =
     \<lparr>sequences = \<lparr>shape = [length toks], data = toks\<rparr>,
      transition_scores = \<lparr>shape = [length toks], data = map (\<lambda>_. 0) toks\<rparr>,
      last_beam_scores = \<lparr>shape = [], data = [0]\<rparr>,
      past_key_values = [],
      attention_mask = \<lparr>shape = [length toks], data = map (\<lambda>_. 1) toks\<rparr>\<rparr>"

definition demo_hypothesis :: "string \<Rightarrow> real \<Rightarrow> int list \<Rightarrow> bool \<Rightarrow> SyntacticHypothesis" where
  "demo_hypothesis k ps toks key_complete =
     SyntacticHypothesis_init k 0 0 0 ps ps
       (SemanticData_init k 0 0 [] None None None)
       (demo_continuation toks) \<lparr>tokens_shortened = 0\<rparr> (Some key_complete) None"

definition demo_semantic :: "string \<Rightarrow> real \<Rightarrow> SyntacticHypothesis list \<Rightarrow> SemanticHypothesis" where
  "demo_semantic k sc ms =
     \<lparr>aggregation_key = k, score = sc, syntactic_hypotheses = ms, source_data = None\<rparr>"

definition demo_legacy :: "int Tensor \<Rightarrow> ContinuationData" where
  "demo_legacy t =
     \<lparr>ContinuationData.sequences = t,
      ContinuationData.transition_scores = \<lparr>shape = shape t, data = map (\<lambda>_. 0) (data t)\<rparr>,
      ContinuationData.last_beam_scores = \<lparr>shape = [], data = [0]\<rparr>,
      ContinuationData.past_key_values = [],
      ContinuationData.attention_mask = \<lparr>shape = shape t, data = map (\<lambda>_. 1) (data t)\<rparr>,
      original_data = None\<rparr>"

section \<open>Properties of the data classes\<close>

lemma demo_sequences:
  "SyntacticHypothesisData.sequences (syntactic_hypothesis (demo_hypothesis k ps toks c)) =
   \<lparr>shape = [length toks], data = toks\<rparr>"
  by (simp add: demo_hypothesis_def SyntacticHypothesis_init_def demo_continuation_def)

lemma demo_path_score: "path_score (demo_hypothesis k ps toks c) = ps"
  by (simp add: demo_hypothesis_def SyntacticHypothesis_init_def)

lemma demo_key: "key_of (demo_hypothesis k ps toks c) = k"
  by (simp add: demo_hypothesis_def SyntacticHypothesis_init_def)

subsection \<open>Equality of syntactic hypotheses\<close>

lemma torch_equal_iff: "torch_equal s t \<longleftrightarrow> s = t"
  by (cases s, cases t) (simp add: torch_equal_def)

lemma torch_equal_elementwise:
  "torch_equal s t \<longleftrightarrow>
     shape s = shape t \<and> length (data s) = length (data t) \<and>
     (\<forall>i < length (data s). data s ! i = data t ! i)"
  unfolding torch_equal_def by (simp add: list_eq_iff_nth_eq [of "data s" "data t"])

text \<open>
  Claim C2. Two syntactic hypotheses are equal exactly when their \<^verbatim>\<open>sequences\<close> tensors
  are element-wise identical (same shape, same element at every position). Hence two
  hypotheses with the same sequences compare equal whatever their path scores and
  provenance fields are, and two with differing sequences never compare equal. No
  field other than \<^verbatim>\<open>sequences\<close> occurs in the statement.
\<close>

theorem SyntacticHypothesis_eq_by_sequences:
  "(SyntacticHypothesis_eq a b \<longleftrightarrow>
      shape (SyntacticHypothesisData.sequences (syntactic_hypothesis a)) =
        shape (SyntacticHypothesisData.sequences (syntactic_hypothesis b)) \<and>
      length (data (SyntacticHypothesisData.sequences (syntactic_hypothesis a))) =
        length (data (SyntacticHypothesisData.sequences (syntactic_hypothesis b))) \<and>
      (\<forall>i < length (data (SyntacticHypothesisData.sequences (syntactic_hypothesis a))).
          data (SyntacticHypothesisData.sequences (syntactic_hypothesis a)) ! i =
          data (SyntacticHypothesisData.sequences (syntactic_hypothesis b)) ! i))
   \<and> (SyntacticHypothesisData.sequences (syntactic_hypothesis a) =
        SyntacticHypothesisData.sequences (syntactic_hypothesis b) \<longrightarrow>
      SyntacticHypothesis_eq a b)
   \<and> (SyntacticHypothesisData.sequences (syntactic_hypothesis a) \<noteq>
        SyntacticHypothesisData.sequences (syntactic_hypothesis b) \<longrightarrow>
      \<not> SyntacticHypothesis_eq a b)"
proof (intro conjI)
  show "SyntacticHypothesis_eq a b \<longleftrightarrow>
      shape (SyntacticHypothesisData.sequences (syntactic_hypothesis a)) =
        shape (SyntacticHypothesisData.sequences (syntactic_hypothesis b)) \<and>
      length (data (SyntacticHypothesisData.sequences (syntactic_hypothesis a))) =
        length (data (SyntacticHypothesisData.sequences (syntactic_hypothesis b))) \<and>
      (\<forall>i < length (data (SyntacticHypothesisData.sequences (syntactic_hypothesis a))).
          data (SyntacticHypothesisData.sequences (syntactic_hypothesis a)) ! i =
          data (SyntacticHypothesisData.sequences (syntactic_hypothesis b)) ! i)"
    unfolding SyntacticHypothesis_eq_def by (rule torch_equal_elementwise)
qed (simp_all add: SyntacticHypothesis_eq_def torch_equal_iff)

text \<open>
  Same tokens with another key, score and flag: equal. Another token: not equal.
\<close>

theorem SyntacticHypothesis_eq_by_sequences_witness:
  "SyntacticHypothesis_eq (demo_hypothesis ''0-A'' (-0.1) [5, 7] True)
                          (demo_hypothesis ''1-B'' (-0.3) [5, 7] False)
   \<and> \<not> SyntacticHypothesis_eq (demo_hypothesis ''0-A'' (-0.1) [5, 7] True)
                              (demo_hypothesis ''0-A'' (-0.1) [5, 8] True)"
  using SyntacticHypothesis_eq_by_sequences
          [of "demo_hypothesis ''0-A'' (-0.1) [5, 7] True"
              "demo_hypothesis ''1-B'' (-0.3) [5, 7] False", THEN conjunct2]
        SyntacticHypothesis_eq_by_sequences
          [of "demo_hypothesis ''0-A'' (-0.1) [5, 7] True"
              "demo_hypothesis ''0-A'' (-0.1) [5, 8] True", THEN conjunct2]
  by (simp add: demo_sequences)

subsection \<open>Ordering\<close>

text \<open>
  Claim C3, as the specification states it, says that \<^verbatim>\<open>a < b\<close> on two syntactic
  hypotheses is defined and holds exactly when \<^verbatim>\<open>a.path_score < b.path_score\<close>. The
  class defines no \<^verbatim>\<open>__lt__\<close>: the comparison of a hypothesis of path score -0.3 with
  one of path score -0.1 does not give \<^verbatim>\<open>True\<close>.
\<close>

theorem SyntacticHypothesis_less_counterexample:
  "path_score (demo_hypothesis ''0-A'' (-0.3) [5, 7] True)
     < path_score (demo_hypothesis ''0-A'' (-0.1) [5, 8] True)
   \<and> py_less (SynHyp (demo_hypothesis ''0-A'' (-0.3) [5, 7] True))
              (SynHyp (demo_hypothesis ''0-A'' (-0.1) [5, 8] True)) \<noteq> Inr True"
  by (simp add: py_less_def demo_path_score)

text \<open>
  Claim C3, amended. \<^verbatim>\<open>SyntacticHypothesis\<close> defines no ordering: for every two
  syntactic hypotheses the comparison \<^verbatim>\<open>a < b\<close> raises \<^verbatim>\<open>TypeError\<close>, whatever their
  path scores and other fields are.
\<close>

theorem SyntacticHypothesis_less_undefined:
  "py_less (SynHyp a) (SynHyp b) = Inl TypeError"
  by (simp add: py_less_def)

theorem SyntacticHypothesis_less_undefined_witness:
  "py_less (SynHyp (demo_hypothesis ''0-A'' (-0.3) [5, 7] True))
           (SynHyp (demo_hypothesis ''0-A'' (-0.1) [5, 8] True)) = Inl TypeError"
  using SyntacticHypothesis_less_undefined
          [of "demo_hypothesis ''0-A'' (-0.3) [5, 7] True"
              "demo_hypothesis ''0-A'' (-0.1) [5, 8] True"]
  by simp

text \<open>
  Claim C6. On two semantic hypotheses \<^verbatim>\<open>a < b\<close> holds exactly when
  \<^verbatim>\<open>a.score < b.score\<close>, and the length of a semantic hypothesis is the number of its
  member syntactic hypotheses.
\<close>

theorem SemanticHypothesis_less_and_len:
  "py_less (SemHyp a) (SemHyp b) = Inr (score a < score b) \<and>
   SemanticHypothesis_len a = length (syntactic_hypotheses a)"
  by (simp add: py_less_def SemanticHypothesis_lt_def SemanticHypothesis_len_def)

theorem SemanticHypothesis_less_and_len_witness:
  "py_less (SemHyp (demo_semantic ''0-A'' (-0.3) [demo_hypothesis ''0-A'' (-0.3) [5, 7] True]))
           (SemHyp (demo_semantic ''1-B'' (-0.1) [])) = Inr True \<and>
   SemanticHypothesis_len (demo_semantic ''0-A'' (-0.3) [demo_hypothesis ''0-A'' (-0.3) [5, 7] True]) = 1"
  using SemanticHypothesis_less_and_len
          [of "demo_semantic ''0-A'' (-0.3) [demo_hypothesis ''0-A'' (-0.3) [5, 7] True]"
              "demo_semantic ''1-B'' (-0.1) []"]
  by (simp add: demo_semantic_def)

subsection \<open>Defaults of the constructors\<close>

text \<open>
  Claim C7. A \<^verbatim>\<open>SemanticData\<close> value constructed without the argument
  \<^verbatim>\<open>has_semantic_data\<close> has the field set to true.
\<close>

theorem SemanticData_default_has_semantic_data:
  "has_semantic_data (SemanticData_init uk st en ty ch ot None) = True"
  by (simp add: SemanticData_init_def)

theorem SemanticData_default_has_semantic_data_witness:
  "has_semantic_data (SemanticData_init ''Berlin'' 0 6 ''LOC'' (Some 1) None None)"
  using SemanticData_default_has_semantic_data [of "''Berlin''" 0 6 "''LOC''" "Some 1" None]
  by simp

text \<open>
  Claim C8. A freshly constructed \<^verbatim>\<open>SyntacticHypothesis\<close> starts in the state
  \<^verbatim>\<open>Created\<close>: when the two flag arguments are not supplied,
  \<^verbatim>\<open>is_aggregation_key_complete\<close> and \<^verbatim>\<open>is_normalized_path_score_calculated\<close> are
  both false.
\<close>

theorem SyntacticHypothesis_default_flags:
  "is_aggregation_key_complete
     (SyntacticHypothesis_init k sem syn idx ps nps sd sh md None None) = False \<and>
   is_normalized_path_score_calculated
     (SyntacticHypothesis_init k sem syn idx ps nps sd sh md None None) = False"
  by (simp add: SyntacticHypothesis_init_def)

theorem SyntacticHypothesis_default_flags_witness:
  "\<not> is_aggregation_key_complete
       (SyntacticHypothesis_init ''0-A'' 0 1 2 (-0.1) (-0.05)
          (SemanticData_init ''A'' 0 6 ''LOC'' None None None)
          (demo_continuation [5, 7]) \<lparr>tokens_shortened = 0\<rparr> None None) \<and>
   \<not> is_normalized_path_score_calculated
       (SyntacticHypothesis_init ''0-A'' 0 1 2 (-0.1) (-0.05)
          (SemanticData_init ''A'' 0 6 ''LOC'' None None None)
          (demo_continuation [5, 7]) \<lparr>tokens_shortened = 0\<rparr> None None)"
  using SyntacticHypothesis_default_flags
          [of "''0-A''" 0 1 2 "-0.1" "-0.05" "SemanticData_init ''A'' 0 6 ''LOC'' None None None"
              "demo_continuation [5, 7]" "\<lparr>tokens_shortened = 0\<rparr>"]
  by simp

subsection \<open>Hashing\<close>

text \<open>
  The hash is a function of the identities of the element objects alone: the token
  values do not enter it.
\<close>

lemma hashes_of_flatten_iter:
  "map Tensor_hash (flatten_iter ids t) = map word_of_int (take (length (data t)) ids)"
proof -
  have "map Tensor_hash (flatten_iter ids t) = map word_of_int (map fst (zip ids (data t)))"
    by (simp add: flatten_iter_def Tensor_hash_def comp_def case_prod_unfold)
  also have "map fst (zip ids (data t)) = take (length (data t)) ids"
    by (simp add: map_fst_zip_take min_def)
  finally show ?thesis .
qed

lemma SyntacticHypothesis_hash_ignores_tokens:
  "length (data (SyntacticHypothesisData.sequences (syntactic_hypothesis a))) =
   length (data (SyntacticHypothesisData.sequences (syntactic_hypothesis b))) \<Longrightarrow>
   SyntacticHypothesis_hash ids a = SyntacticHypothesis_hash ids b"
  by (simp add: SyntacticHypothesis_hash_def hashes_of_flatten_iter)

lemmas tuplehash_eval =
  SyntacticHypothesis_hash_def demo_sequences flatten_iter_def Tensor_hash_def
  tuplehash_def XXPRIME_1_def XXPRIME_2_def XXPRIME_5_def XXROTATE_def Let_def

text \<open>
  Claim C9 says that the hash of a syntactic hypothesis is computed solely from its
  flattened token sequence, so that two hypotheses that compare equal have equal
  hashes. The code hashes the tuple of the element tensors, and a tensor hashes by
  identity. Two hypotheses over the tokens 5, 7 compare equal, and their hashes differ
  when the element objects of the two calls lie at different addresses; two hypotheses
  over different tokens do not compare equal, and their hashes agree when the element
  objects lie at the same addresses.
\<close>

theorem SyntacticHypothesis_hash_by_identity:
  "SyntacticHypothesis_eq (demo_hypothesis ''0-A'' (-0.1) [5, 7] True)
                          (demo_hypothesis ''1-B'' (-0.3) [5, 7] True)
   \<and> SyntacticHypothesis_hash [140234567890120, 140234567890344]
         (demo_hypothesis ''0-A'' (-0.1) [5, 7] True)
     \<noteq> SyntacticHypothesis_hash [140234567891000, 140234567891224]
         (demo_hypothesis ''1-B'' (-0.3) [5, 7] True)
   \<and> \<not> SyntacticHypothesis_eq (demo_hypothesis ''0-A'' (-0.1) [5, 7] True)
                              (demo_hypothesis ''0-A'' (-0.1) [5, 8] True)
   \<and> SyntacticHypothesis_hash [140234567890120, 140234567890344]
         (demo_hypothesis ''0-A'' (-0.1) [5, 7] True)
     = SyntacticHypothesis_hash [140234567890120, 140234567890344]
         (demo_hypothesis ''0-A'' (-0.1) [5, 8] True)"
proof (intro conjI)
  show "SyntacticHypothesis_eq (demo_hypothesis ''0-A'' (-0.1) [5, 7] True)
                               (demo_hypothesis ''1-B'' (-0.3) [5, 7] True)"
    by (simp add: SyntacticHypothesis_eq_def torch_equal_def demo_sequences)
  show "SyntacticHypothesis_hash [140234567890120, 140234567890344]
          (demo_hypothesis ''0-A'' (-0.1) [5, 7] True)
        \<noteq> SyntacticHypothesis_hash [140234567891000, 140234567891224]
          (demo_hypothesis ''1-B'' (-0.3) [5, 7] True)"
    by (simp add: tuplehash_eval)
  show "\<not> SyntacticHypothesis_eq (demo_hypothesis ''0-A'' (-0.1) [5, 7] True)
                                 (demo_hypothesis ''0-A'' (-0.1) [5, 8] True)"
    by (simp add: SyntacticHypothesis_eq_def torch_equal_def demo_sequences)
  show "SyntacticHypothesis_hash [140234567890120, 140234567890344]
          (demo_hypothesis ''0-A'' (-0.1) [5, 7] True)
        = SyntacticHypothesis_hash [140234567890120, 140234567890344]
          (demo_hypothesis ''0-A'' (-0.1) [5, 8] True)"
    by (rule SyntacticHypothesis_hash_ignores_tokens) (simp add: demo_sequences)
qed

subsection \<open>Length of a legacy continuation\<close>

text \<open>
  Claim C10, as stated, says that \<^verbatim>\<open>len(c)\<close> raises a type error for every legacy
  continuation. For a zero-dimensional \<^verbatim>\<open>sequences\<close> tensor the size tuple is empty,
  the indexing \<^verbatim>\<open>shape[-1]\<close> fails before \<^verbatim>\<open>len\<close> is reached, and the error is not a
  type error.
\<close>

theorem ContinuationData_len_counterexample:
  "ContinuationData_len (demo_legacy \<lparr>shape = [], data = [7]\<rparr>) \<noteq> Inl TypeError"
  by (simp add: ContinuationData_len_def shape_last_def demo_legacy_def)

text \<open>
  Claim C10, amended. For every legacy \<^verbatim>\<open>ContinuationData\<close> value \<^verbatim>\<open>c\<close>, evaluating
  \<^verbatim>\<open>len(c)\<close> never returns a number: the implementation applies \<^verbatim>\<open>len\<close> to the
  integer \<^verbatim>\<open>c.sequences.shape[-1]\<close>, so the call raises a type error whenever the
  \<^verbatim>\<open>sequences\<close> tensor has at least one dimension; for a zero-dimensional tensor it
  raises an index error.
\<close>

theorem ContinuationData_len_never_returns:
  "(\<forall>n. ContinuationData_len c \<noteq> Inr n) \<and>
   (shape (ContinuationData.sequences c) \<noteq> [] \<longrightarrow> ContinuationData_len c = Inl TypeError) \<and>
   (shape (ContinuationData.sequences c) = [] \<longrightarrow> ContinuationData_len c = Inl IndexError)"
  by (simp add: ContinuationData_len_def shape_last_def)

theorem ContinuationData_len_never_returns_witness:
  "ContinuationData_len (demo_legacy \<lparr>shape = [3], data = [7, 8, 9]\<rparr>) = Inl TypeError \<and>
   ContinuationData_len (demo_legacy \<lparr>shape = [], data = [7]\<rparr>) = Inl IndexError"
  using ContinuationData_len_never_returns [of "demo_legacy \<lparr>shape = [3], data = [7, 8, 9]\<rparr>"]
        ContinuationData_len_never_returns [of "demo_legacy \<lparr>shape = [], data = [7]\<rparr>"]
  by (simp add: demo_legacy_def)

section \<open>Properties of the operations\<close>

subsection \<open>The partition by key\<close>

text \<open>
  The partition built hypothesis after hypothesis is the list of the keys in first-seen
  order, each with the hypotheses of that key in input order.
\<close>

lemma partition_by_key_snoc:
  "partition_by_key (H @ [h]) = add_to_partition h (partition_by_key H)"
  by (simp add: partition_by_key_def)

lemma first_seen_snoc:
  "first_seen (ks @ [k]) = (if k \<in> set ks then first_seen ks else first_seen ks @ [k])"
  by (simp add: first_seen_def)

lemma set_first_seen: "set (first_seen ks) = set ks"
  by (simp add: first_seen_def)

lemma distinct_first_seen: "distinct (first_seen ks)"
  by (simp add: first_seen_def)

lemma add_to_partition_known:
  "distinct ks \<Longrightarrow> key_of h \<in> set ks \<Longrightarrow>
   add_to_partition h (map (\<lambda>k. (k, F k)) ks) =
   map (\<lambda>k. (k, if k = key_of h then F k @ [h] else F k)) ks"
  by (induction ks) auto

lemma add_to_partition_new:
  "key_of h \<notin> set ks \<Longrightarrow>
   add_to_partition h (map (\<lambda>k. (k, F k)) ks) = map (\<lambda>k. (k, F k)) ks @ [(key_of h, [h])]"
  by (induction ks) auto

lemma partition_by_key_eq:
  "partition_by_key H =
   map (\<lambda>k. (k, filter (\<lambda>h. key_of h = k) H)) (first_seen (map key_of H))"
proof (induction H rule: rev_induct)
  case Nil
  show ?case by (simp add: partition_by_key_def first_seen_def)
next
  case (snoc h H)
  let ?ks = "first_seen (map key_of H)"
  show ?case
  proof (cases "key_of h \<in> set (map key_of H)")
    case True
    then have "key_of h \<in> set ?ks" by (simp add: set_first_seen)
    then have "partition_by_key (H @ [h]) =
        map (\<lambda>k. (k, if k = key_of h then filter (\<lambda>h. key_of h = k) H @ [h] else filter (\<lambda>h. key_of h = k) H)) ?ks"
      using snoc.IH add_to_partition_known [OF distinct_first_seen, of h "map key_of H"]
      by (simp add: partition_by_key_snoc)
    also have "\<dots> = map (\<lambda>k. (k, filter (\<lambda>h. key_of h = k) (H @ [h]))) ?ks"
      by (rule map_cong) auto
    finally show ?thesis using True by (simp add: first_seen_snoc)
  next
    case False
    then have new: "key_of h \<notin> set ?ks" by (simp add: set_first_seen)
    have empty: "filter (\<lambda>x. key_of x = key_of h) H = []"
      using False by (simp add: filter_empty_conv image_iff) metis
    have "partition_by_key (H @ [h]) =
        map (\<lambda>k. (k, filter (\<lambda>h. key_of h = k) H)) ?ks @ [(key_of h, [h])]"
      using snoc.IH add_to_partition_new [OF new] by (simp add: partition_by_key_snoc)
    also have "map (\<lambda>k. (k, filter (\<lambda>h. key_of h = k) H)) ?ks =
               map (\<lambda>k. (k, filter (\<lambda>x. key_of x = k) (H @ [h]))) ?ks"
      using new by (intro map_cong) auto
    finally show ?thesis using False empty by (simp add: first_seen_snoc)
  qed
qed

lemma members_of_partition:
  "concat (map syntactic_hypotheses (groups_of_partition policy (k, ms))) = ms"
  by (simp add: groups_of_partition_def make_semantic_hypothesis_def comp_def)

lemma members_of_groups:
  "concat (map syntactic_hypotheses (concat (map (groups_of_partition policy) ps))) = concat (map snd ps)"
proof (induction ps)
  case Nil
  show ?case by simp
next
  case (Cons p ps)
  then show ?case by (cases p) (simp add: members_of_partition)
qed

lemma mset_partitions:
  "distinct ks \<Longrightarrow>
   mset (concat (map (\<lambda>k. filter (\<lambda>h. f h = k) H) ks)) = mset (filter (\<lambda>h. f h \<in> set ks) H)"
proof (induction ks)
  case Nil
  show ?case by simp
next
  case (Cons k ks)
  have "mset (filter (\<lambda>h. f h = k) H) + mset (filter (\<lambda>h. f h \<in> set ks) H) =
        mset (filter (\<lambda>h. f h = k \<or> f h \<in> set ks) H)"
    using Cons.prems by (induction H) auto
  then show ?case using Cons by simp
qed


lemma partition_members:
  "(k, ms) \<in> set (partition_by_key H) \<Longrightarrow>
   ms = filter (\<lambda>h. key_of h = k) H \<and> ms \<noteq> [] \<and> k \<in> set (map key_of H)"
proof -
  assume "(k, ms) \<in> set (partition_by_key H)"
  then have k: "k \<in> set (map key_of H)" and ms: "ms = filter (\<lambda>h. key_of h = k) H"
    by (auto simp: partition_by_key_eq set_first_seen)
  from k have "ms \<noteq> []" unfolding ms by (auto simp: filter_empty_conv)
  with k ms show ?thesis by simp
qed

lemma group_of_partition_cases:
  "g \<in> set (groups_of_partition policy (k, ms)) \<Longrightarrow>
   aggregation_key g = k \<and>
   (syntactic_hypotheses g = ms \<or>
    (\<exists>m \<in> set ms. syntactic_hypotheses g = [m] \<and> \<not> is_aggregation_key_complete m))"
  by (auto simp: groups_of_partition_def make_semantic_hypothesis_def list_all_iff
           split: if_splits)

lemma groups_of_partition_nonempty:
  "ms \<noteq> [] \<Longrightarrow> groups_of_partition policy (k, ms) \<noteq> []"
  by (simp add: groups_of_partition_def)

lemma partition_by_key_nonempty: "H \<noteq> [] \<Longrightarrow> partition_by_key H \<noteq> []"
  by (cases H) (simp_all add: partition_by_key_eq first_seen_def)

lemma groups_nonempty:
  assumes "H \<noteq> []"
  shows "concat (map (groups_of_partition policy) (partition_by_key H)) \<noteq> []"
proof -
  from assms obtain p ps where ps: "partition_by_key H = p # ps"
    using partition_by_key_nonempty by (cases "partition_by_key H") auto
  obtain k ms where p: "p = (k, ms)" by (cases p)
  have "(k, ms) \<in> set (partition_by_key H)" by (simp add: ps p)
  then have "ms \<noteq> []" using partition_members by blast
  then show ?thesis by (simp add: ps p groups_of_partition_nonempty)
qed

lemma group_in_groups:
  assumes "g \<in> set (concat (map (groups_of_partition policy) (partition_by_key H)))"
  shows "syntactic_hypotheses g \<noteq> [] \<and>
         (\<forall>m \<in> set (syntactic_hypotheses g). key_of m = aggregation_key g) \<and>
         (syntactic_hypotheses g = filter (\<lambda>h. key_of h = aggregation_key g) H \<or>
          (\<exists>m. syntactic_hypotheses g = [m] \<and> \<not> is_aggregation_key_complete m))"
proof -
  from assms obtain k ms where in_p: "(k, ms) \<in> set (partition_by_key H)"
    and g: "g \<in> set (groups_of_partition policy (k, ms))"
    by auto
  note pm = partition_members [OF in_p]
  note ms = pm [THEN conjunct1] and ne = pm [THEN conjunct2, THEN conjunct1]
  note gc = group_of_partition_cases [OF g]
  note gk = gc [THEN conjunct1] and cases = gc [THEN conjunct2]
  from cases show ?thesis
  proof
    assume "syntactic_hypotheses g = ms"
    then show ?thesis using ms ne gk by auto
  next
    assume "\<exists>m \<in> set ms. syntactic_hypotheses g = [m] \<and> \<not> is_aggregation_key_complete m"
    then obtain m where "m \<in> set ms" "syntactic_hypotheses g = [m]" "\<not> is_aggregation_key_complete m"
      by blast
    then show ?thesis using ms gk by auto
  qed
qed

lemma keys_of_partition_groups:
  "ms \<noteq> [] \<Longrightarrow> \<exists>n. map aggregation_key (groups_of_partition policy (k, ms)) = replicate (Suc n) k"
proof -
  assume ne: "ms \<noteq> []"
  show ?thesis
  proof (cases "list_all (\<lambda>m. \<not> is_aggregation_key_complete m) ms")
    case True
    then have "map aggregation_key (groups_of_partition policy (k, ms)) = replicate (length ms) k"
      by (simp add: groups_of_partition_def make_semantic_hypothesis_def comp_def map_replicate_const)
    moreover from ne obtain n where "length ms = Suc n" by (cases ms) auto
    ultimately show ?thesis by auto
  next
    case False
    then have "map aggregation_key (groups_of_partition policy (k, ms)) = replicate (Suc 0) k"
      by (simp add: groups_of_partition_def make_semantic_hypothesis_def)
    then show ?thesis by blast
  qed
qed

lemma remdups_adj_blocks:
  "distinct (map fst ps) \<Longrightarrow> \<forall>p \<in> set ps. \<exists>n. b p = replicate (Suc n) (fst p) \<Longrightarrow>
   remdups_adj (concat (map b ps)) = map fst ps"
proof (induction ps)
  case Nil
  show ?case by simp
next
  case (Cons p ps)
  then obtain n where bp: "b p = replicate (Suc n) (fst p)" by auto
  have IH: "remdups_adj (concat (map b ps)) = map fst ps" using Cons by simp
  show ?case
  proof (cases ps)
    case Nil
    then show ?thesis using bp by (simp add: remdups_adj_replicate del: replicate.simps)
  next
    case (Cons q qs)
    with Cons.prems obtain m where bq: "b q = replicate (Suc m) (fst q)" by auto
    have neq: "fst p \<noteq> fst q" using Cons.prems(1) Cons by auto
    have "concat (map b (p # ps)) = replicate (Suc n) (fst p) @ (fst q # (replicate m (fst q) @ concat (map b qs)))"
      using bp bq Cons by simp
    then have "remdups_adj (concat (map b (p # ps))) =
        fst p # remdups_adj (fst q # (replicate m (fst q) @ concat (map b qs)))"
      using neq by (simp add: remdups_adj_append_two remdups_adj_replicate remdups_adj_append' del: replicate.simps)
    also have "fst q # (replicate m (fst q) @ concat (map b qs)) = concat (map b ps)"
      using bq Cons by simp
    finally show ?thesis using IH by simp
  qed
qed

subsection \<open>Grouping\<close>

text \<open>
  Claim C1. For every non-empty ordered sequence \<open>H\<close> of syntactic hypotheses the
  grouping returns groups \<open>G\<close> that partition \<open>H\<close> exactly: the members of all groups
  together are \<open>H\<close> as a multiset (none dropped, none duplicated); every group is
  non-empty and all its members carry the group's aggregation key; a group is the
  whole partition of its key or the singleton of a hypothesis with an incomplete key;
  and the partition is stable: read group after group, the members are the partitions
  in first-seen key order, each in input order, and the keys of the groups follow the
  first-seen order of the keys.
\<close>

theorem group_partitions_exactly:
  assumes "H \<noteq> []"
  shows "\<exists>G. group_hypotheses policy H = Inr G \<and>
      mset (concat (map syntactic_hypotheses G)) = mset H \<and>
      (\<forall>g \<in> set G. syntactic_hypotheses g \<noteq> [] \<and>
         (\<forall>m \<in> set (syntactic_hypotheses g). key_of m = aggregation_key g) \<and>
         (syntactic_hypotheses g = filter (\<lambda>h. key_of h = aggregation_key g) H \<or>
          (\<exists>m. syntactic_hypotheses g = [m] \<and> \<not> is_aggregation_key_complete m))) \<and>
      concat (map syntactic_hypotheses G) =
        concat (map (\<lambda>k. filter (\<lambda>h. key_of h = k) H) (first_seen (map key_of H))) \<and>
      remdups_adj (map aggregation_key G) = first_seen (map key_of H)"
proof -
  let ?G = "concat (map (groups_of_partition policy) (partition_by_key H))"
  have res: "group_hypotheses policy H = Inr ?G"
    using assms by (simp add: group_hypotheses_def)
  have order: "concat (map syntactic_hypotheses ?G) =
      concat (map (\<lambda>k. filter (\<lambda>h. key_of h = k) H) (first_seen (map key_of H)))"
    unfolding members_of_groups by (simp add: partition_by_key_eq comp_def)
  have "mset (concat (map syntactic_hypotheses ?G)) =
        mset (filter (\<lambda>h. key_of h \<in> set (first_seen (map key_of H))) H)"
    unfolding order by (rule mset_partitions) (rule distinct_first_seen)
  also have "filter (\<lambda>h. key_of h \<in> set (first_seen (map key_of H))) H = H"
    by (simp add: set_first_seen)
  finally have all: "mset (concat (map syntactic_hypotheses ?G)) = mset H" .
  have each: "\<forall>g \<in> set ?G. syntactic_hypotheses g \<noteq> [] \<and>
         (\<forall>m \<in> set (syntactic_hypotheses g). key_of m = aggregation_key g) \<and>
         (syntactic_hypotheses g = filter (\<lambda>h. key_of h = aggregation_key g) H \<or>
          (\<exists>m. syntactic_hypotheses g = [m] \<and> \<not> is_aggregation_key_complete m))"
    using group_in_groups by blast
  have keys: "remdups_adj (map aggregation_key ?G) = first_seen (map key_of H)"
  proof -
    have "map aggregation_key ?G =
          concat (map (\<lambda>p. map aggregation_key (groups_of_partition policy p))
                      (partition_by_key H))"
      by (simp add: map_concat comp_def)
    moreover have "distinct (map fst (partition_by_key H))"
      by (simp add: partition_by_key_eq comp_def distinct_first_seen)
    moreover have "\<forall>p \<in> set (partition_by_key H).
        \<exists>n. map aggregation_key (groups_of_partition policy p) = replicate (Suc n) (fst p)"
    proof
      fix p assume p: "p \<in> set (partition_by_key H)"
      obtain k ms where kms: "p = (k, ms)" by (cases p)
      with p have "ms \<noteq> []" using partition_members by blast
      from keys_of_partition_groups [OF this] show
        "\<exists>n. map aggregation_key (groups_of_partition policy p) = replicate (Suc n) (fst p)"
        by (simp add: kms)
    qed
    ultimately have "remdups_adj (map aggregation_key ?G) = map fst (partition_by_key H)"
      using remdups_adj_blocks
              [of "partition_by_key H" "\<lambda>p. map aggregation_key (groups_of_partition policy p)"]
      by simp
    then show ?thesis by (simp add: partition_by_key_eq comp_def)
  qed
  from res all each order keys show ?thesis by blast
qed

text \<open>
  Three hypotheses with the keys 0-A, 1-B, 0-A: the members come out as the two of
  0-A in input order, then the one of 1-B.
\<close>

theorem group_partitions_exactly_witness:
  "[demo_hypothesis ''0-A'' (-0.1) [1] True, demo_hypothesis ''1-B'' (-0.2) [3] True,
    demo_hypothesis ''0-A'' (-0.3) [2] True] \<noteq> [] \<and>
   (\<exists>G. group_hypotheses max_policy
        [demo_hypothesis ''0-A'' (-0.1) [1] True, demo_hypothesis ''1-B'' (-0.2) [3] True,
         demo_hypothesis ''0-A'' (-0.3) [2] True] = Inr G \<and>
      concat (map syntactic_hypotheses G) =
        [demo_hypothesis ''0-A'' (-0.1) [1] True, demo_hypothesis ''0-A'' (-0.3) [2] True,
         demo_hypothesis ''1-B'' (-0.2) [3] True] \<and>
      remdups_adj (map aggregation_key G) = [''0-A'', ''1-B''])"
proof -
  let ?H = "[demo_hypothesis ''0-A'' (-0.1) [1] True, demo_hypothesis ''1-B'' (-0.2) [3] True,
             demo_hypothesis ''0-A'' (-0.3) [2] True]"
  have ne: "?H \<noteq> []" by simp
  have keys: "first_seen (map key_of ?H) = [''0-A'', ''1-B'']"
    by (simp add: first_seen_def demo_key)
  have parts: "concat (map (\<lambda>k. filter (\<lambda>h. key_of h = k) ?H) [''0-A'', ''1-B'']) =
      [demo_hypothesis ''0-A'' (-0.1) [1] True, demo_hypothesis ''0-A'' (-0.3) [2] True,
       demo_hypothesis ''1-B'' (-0.2) [3] True]"
    by (simp add: demo_key)
  from group_partitions_exactly [OF ne, of max_policy] obtain G where
    "group_hypotheses max_policy ?H = Inr G"
    "concat (map syntactic_hypotheses G) =
       concat (map (\<lambda>k. filter (\<lambda>h. key_of h = k) ?H) (first_seen (map key_of ?H)))"
    "remdups_adj (map aggregation_key G) = first_seen (map key_of ?H)"
    by blast
  then show ?thesis using ne unfolding keys parts by blast
qed

text \<open>
  The two end-to-end scenarios of the specification, evaluated under the maximum
  policy: four hypotheses in two complete partitions give two groups of two, and two
  hypotheses with the same empty, incomplete key give two singleton groups.
\<close>

lemma group_scenario_complete:
  "group_hypotheses max_policy
     [demo_hypothesis ''0-A'' (-0.1) [1] True, demo_hypothesis ''0-A'' (-0.3) [2] True,
      demo_hypothesis ''1-B'' (-0.2) [3] True, demo_hypothesis ''1-B'' (-0.5) [4] True]
   = Inr [demo_semantic ''0-A'' (-0.1)
            [demo_hypothesis ''0-A'' (-0.1) [1] True, demo_hypothesis ''0-A'' (-0.3) [2] True],
          demo_semantic ''1-B'' (-0.2)
            [demo_hypothesis ''1-B'' (-0.2) [3] True, demo_hypothesis ''1-B'' (-0.5) [4] True]]"
  by (simp add: group_hypotheses_def partition_by_key_def groups_of_partition_def
        make_semantic_hypothesis_def demo_semantic_def demo_hypothesis_def
        SyntacticHypothesis_init_def)

lemma group_scenario_incomplete:
  "group_hypotheses max_policy
     [demo_hypothesis [] (-0.1) [1] False, demo_hypothesis [] (-0.3) [2] False]
   = Inr [demo_semantic [] (-0.1) [demo_hypothesis [] (-0.1) [1] False],
          demo_semantic [] (-0.3) [demo_hypothesis [] (-0.3) [2] False]]"
  by (simp add: group_hypotheses_def partition_by_key_def groups_of_partition_def
        make_semantic_hypothesis_def demo_semantic_def demo_hypothesis_def
        SyntacticHypothesis_init_def)

text \<open>
  Claim C5. The grouping fails with \<^verbatim>\<open>EmptyInput\<close> exactly when it is given zero
  hypotheses, and it never returns an empty list of groups: the empty input is an
  error, not an empty result.
\<close>

theorem group_EmptyInput:
  "(group_hypotheses policy H = Inl EmptyInput \<longleftrightarrow> H = []) \<and>
   group_hypotheses policy H \<noteq> Inr []"
  using groups_nonempty [of H policy] by (auto simp: group_hypotheses_def)

theorem group_EmptyInput_witness:
  "group_hypotheses max_policy [] = Inl EmptyInput \<and>
   group_hypotheses max_policy [] \<noteq> Inr [] \<and>
   group_hypotheses max_policy [demo_hypothesis ''0-A'' (-0.1) [1] True] \<noteq> Inl EmptyInput"
  using group_EmptyInput [of max_policy "[]"]
        group_EmptyInput [of max_policy "[demo_hypothesis ''0-A'' (-0.1) [1] True]"]
  by simp

subsection \<open>Shortening and restoring\<close>

text \<open>
  A valid shortening succeeds, and restoring its result gives the data fields of the
  input, with no unshortened form.
\<close>

lemma shorten_succeeds:
  "n \<le> length (data (SyntacticHypothesisData.sequences c)) \<Longrightarrow> \<exists>c'. shorten c n = Inr c'"
  by (simp add: shorten_def)

lemma shorten_fails:
  "length (data (SyntacticHypothesisData.sequences c)) < n \<Longrightarrow> shorten c n = Inl InvalidLength"
  by (simp add: shorten_def)

lemma restore_of_shorten:
  assumes "shorten c n = Inr c'"
  shows "restore c' = c\<lparr>unshortened_data := None\<rparr>"
proof -
  from assms have "unshortened_data c' =
      Some \<lparr>sequences = SyntacticHypothesisData.sequences c,
            transition_scores = SyntacticHypothesisData.transition_scores c,
            last_beam_scores = SyntacticHypothesisData.last_beam_scores c,
            past_key_values = SyntacticHypothesisData.past_key_values c,
            attention_mask = SyntacticHypothesisData.attention_mask c\<rparr>"
    by (auto simp: shorten_def split: if_splits)
  then show ?thesis by (cases c) (simp add: restore_def)
qed

lemma restore_without_unshortened: "unshortened_data c = None \<Longrightarrow> restore c = c"
  by (simp add: restore_def)

lemma unshortened_data_restore: "unshortened_data (restore c) = None"
  by (cases "unshortened_data c") (simp_all add: restore_def)

text \<open>
  Claim C4, as stated, says that \<^verbatim>\<open>restore(shorten(c, n))\<close> reproduces \<^verbatim>\<open>c\<close> exactly
  for every continuation. A continuation that already has an unshortened form (it was
  shortened before, from the tokens 5, 7, 9 to 5, 7) is shortened to one token without
  error, and restoring the result does not give it back: shortening overwrites the
  unshortened form, and what \<^verbatim>\<open>restore\<close> returns has none.
\<close>

theorem restore_shorten_counterexample:
  "1 \<le> length (data (SyntacticHypothesisData.sequences
          ((demo_continuation [5, 7])\<lparr>unshortened_data := Some (demo_unshortened [5, 7, 9])\<rparr>))) \<and>
   \<not> isl (shorten
      ((demo_continuation [5, 7])\<lparr>unshortened_data := Some (demo_unshortened [5, 7, 9])\<rparr>) 1) \<and>
   restore (projr (shorten
      ((demo_continuation [5, 7])\<lparr>unshortened_data := Some (demo_unshortened [5, 7, 9])\<rparr>) 1))
     \<noteq> (demo_continuation [5, 7])\<lparr>unshortened_data := Some (demo_unshortened [5, 7, 9])\<rparr>"
  by (simp add: shorten_def restore_def demo_continuation_def)

text \<open>
  Claim C4, amended. For every continuation \<^verbatim>\<open>c\<close> with no unshortened form and every
  valid new length \<open>n \<le> len(c.sequences)\<close>, \<^verbatim>\<open>restore(shorten(c, n))\<close> reproduces \<^verbatim>\<open>c\<close>
  exactly; \<^verbatim>\<open>restore(restore(c))\<close> equals \<^verbatim>\<open>restore(c)\<close> for every continuation; and
  restoring a continuation with no unshortened form returns the input unchanged.
\<close>

theorem restore_shorten_roundtrip:
  "(unshortened_data c = None \<and> n \<le> length (data (SyntacticHypothesisData.sequences c)) \<longrightarrow>
      (\<exists>c'. shorten c n = Inr c' \<and> restore c' = c)) \<and>
   restore (restore c) = restore c \<and>
   (unshortened_data c = None \<longrightarrow> restore c = c)"
proof (intro conjI impI)
  assume pre: "unshortened_data c = None \<and> n \<le> length (data (SyntacticHypothesisData.sequences c))"
  then obtain c' where c': "shorten c n = Inr c'"
    using shorten_succeeds by blast
  then have "restore c' = c\<lparr>unshortened_data := None\<rparr>"
    by (rule restore_of_shorten)
  also have "\<dots> = c" using pre by simp
  finally show "\<exists>c'. shorten c n = Inr c' \<and> restore c' = c"
    using c' by blast
next
  show "restore (restore c) = restore c"
    by (rule restore_without_unshortened) (rule unshortened_data_restore)
next
  assume "unshortened_data c = None"
  then show "restore c = c" by (rule restore_without_unshortened)
qed

text \<open>
  The tokens 5, 7, 9 shortened to two tokens and restored, and the same continuation
  restored without having been shortened.
\<close>

theorem restore_shorten_roundtrip_witness:
  "unshortened_data (demo_continuation [5, 7, 9]) = None \<and>
   2 \<le> length (data (SyntacticHypothesisData.sequences (demo_continuation [5, 7, 9]))) \<and>
   (\<exists>c'. shorten (demo_continuation [5, 7, 9]) 2 = Inr c' \<and>
         restore c' = demo_continuation [5, 7, 9]) \<and>
   restore (demo_continuation [5, 7, 9]) = demo_continuation [5, 7, 9]"
  using restore_shorten_roundtrip [of "demo_continuation [5, 7, 9]" 2]
  by (simp add: demo_continuation_def)

end
